theory Spec2Isabelle
  imports Main "HOL-Library.Word" "HOL-Library.Multiset"
begin

section \<open>The callback bridge of miniqt: data model\<close>

text \<open>
  The bridge consists of three signal trampolines (\<^verbatim>\<open>MQCallback\<close>, \<^verbatim>\<open>MQCallback_QString\<close>,
  \<^verbatim>\<open>MQCallback_int\<close>, in \<^verbatim>\<open>callback.cpp\<close>) and of the paint event filter
  (\<^verbatim>\<open>MQPaintEventFilter\<close>, at the end of \<^verbatim>\<open>miniqt.cpp\<close>). Each of them stores two opaque
  words and a pointer to a foreign function, and forwards to that function.

  Machine values: \<^verbatim>\<open>uintptr_t\<close> is a 64-bit word and \<^verbatim>\<open>int\<close> a 32-bit word. A function
  pointer is the address of the function, the null pointer being the address 0. A
  \<^verbatim>\<open>QString\<close> is its sequence of UTF-16 code units. An object pointer is the index of a
  cell of the object store.
\<close>

type_synonym uintptr_t = "64 word"
type_synonym c_int = "32 word"
type_synonym QString = "16 word list"
type_synonym fnptr = "64 word"
type_synonym handle = nat

text \<open>
  An event carries its type tag (what \<^verbatim>\<open>event->type()\<close> returns) and the rest of the event
  object, kept opaque. \<^verbatim>\<open>QEvent::Paint\<close> is the enumerator 12 of the toolkit.
\<close>

record QEvent =
  event_type :: nat
  payload :: "8 word list"

definition QEvent_Paint :: nat where
  "QEvent_Paint = 12"

text \<open>
  The objects of the store, by class. The constructors of the four classes of the bridge
  initialise the three members from the three arguments, in this order
  (\<^verbatim>\<open>: data0{data0}, data1{data1}, callback{callback}\<close>; the members of the filter are
  spelt \<^verbatim>\<open>data0_\<close>, \<^verbatim>\<open>data1_\<close>, \<^verbatim>\<open>callback_\<close>), and do nothing else. Objects of the toolkit
  itself matter only by whether they are widgets.
\<close>

datatype object =
    MQCallback (data0: uintptr_t) (data1: uintptr_t) (callback: fnptr)
  | MQCallback_QString (data0: uintptr_t) (data1: uintptr_t) (callback: fnptr)
  | MQCallback_int (data0: uintptr_t) (data1: uintptr_t) (callback: fnptr)
  | MQPaintEventFilter (data0: uintptr_t) (data1: uintptr_t) (callback: fnptr)
  | QWidget
  | QObject

text \<open>
  Foreign code. The four shapes of function pointer are those of \<^verbatim>\<open>miniqt.hpp\<close>:
  \<^verbatim>\<open>MQCallback_ptr\<close>, \<^verbatim>\<open>MQCallback_QString_ptr\<close>, \<^verbatim>\<open>MQCallback_int_ptr\<close> and
  \<^verbatim>\<open>MQPaintEventCallback\<close>. A foreign function acts on the foreign caller's own state
  \<open>'w\<close>; the paint callback also returns a \<^verbatim>\<open>bool\<close>. The foreign program maps the address
  of each foreign function to its body.
\<close>

datatype 'w foreign_fn =
    Fn_void "uintptr_t \<Rightarrow> uintptr_t \<Rightarrow> 'w \<Rightarrow> 'w"
  | Fn_QString "uintptr_t \<Rightarrow> uintptr_t \<Rightarrow> QString \<Rightarrow> 'w \<Rightarrow> 'w"
  | Fn_int "uintptr_t \<Rightarrow> uintptr_t \<Rightarrow> c_int \<Rightarrow> 'w \<Rightarrow> 'w"
  | Fn_paint "uintptr_t \<Rightarrow> uintptr_t \<Rightarrow> handle \<Rightarrow> QEvent \<Rightarrow> 'w \<Rightarrow> bool \<times> 'w"

type_synonym 'w program = "fnptr \<Rightarrow> 'w foreign_fn option"

text \<open>
  Every call made through a stored function pointer is recorded, in order, with the
  address called and the arguments passed.
\<close>

datatype call =
    Call_void fnptr uintptr_t uintptr_t
  | Call_QString fnptr uintptr_t uintptr_t QString
  | Call_int fnptr uintptr_t uintptr_t c_int
  | Call_paint fnptr uintptr_t uintptr_t handle QEvent

text \<open>
  The state. The object store is the list of the cells of storage handed out so far, a
  cell holding an object or none (raw storage); \<^verbatim>\<open>operator new\<close> hands out the next cell.
  The toolkit keeps two registries, which only its own \<^verbatim>\<open>connect\<close>,
  \<^verbatim>\<open>installEventFilter\<close> and \<^verbatim>\<open>removeEventFilter\<close> change: the signal connections (sender,
  signal, receiver, method, as the arguments of \<^verbatim>\<open>QObject_connect_abi\<close>) and the event
  filter registrations (watched object, filter object, as the arguments of
  \<^verbatim>\<open>QObject_installEventFilter\<close>). Then the record of calls, and the foreign state.
\<close>

record 'w state =
  heap :: "object option list"
  connections :: "(handle \<times> string \<times> handle \<times> string) list"
  eventFilters :: "(handle \<times> handle) list"
  calls :: "call list"
  foreign :: 'w

definition object_at :: "'w state \<Rightarrow> handle \<Rightarrow> object option" where
  "object_at s h = (if h < length (heap s) then heap s ! h else None)"

text \<open>
  What C++ leaves undefined is a value of the model: a call through a null function
  pointer, a call through a pointer to no function of the expected shape, a member
  function run on something that is not an object of its class, and an object built
  where there is no storage.
\<close>

datatype fault = Null_call | Bad_call | Bad_this | Bad_storage

section \<open>Calls through a function pointer\<close>

definition call_void ::
  "'w program \<Rightarrow> fnptr \<Rightarrow> uintptr_t \<Rightarrow> uintptr_t \<Rightarrow> 'w state \<Rightarrow> fault + 'w state" where
  "call_void P f d0 d1 s =
     (if f = 0 then Inl Null_call
      else case P f of
        Some (Fn_void body) \<Rightarrow>
          Inr (s\<lparr>calls := calls s @ [Call_void f d0 d1], foreign := body d0 d1 (foreign s)\<rparr>)
      | _ \<Rightarrow> Inl Bad_call)"

definition call_QString ::
  "'w program \<Rightarrow> fnptr \<Rightarrow> uintptr_t \<Rightarrow> uintptr_t \<Rightarrow> QString \<Rightarrow> 'w state \<Rightarrow> fault + 'w state" where
  "call_QString P f d0 d1 str s =
     (if f = 0 then Inl Null_call
      else case P f of
        Some (Fn_QString body) \<Rightarrow>
          Inr (s\<lparr>calls := calls s @ [Call_QString f d0 d1 str],
                 foreign := body d0 d1 str (foreign s)\<rparr>)
      | _ \<Rightarrow> Inl Bad_call)"

definition call_int ::
  "'w program \<Rightarrow> fnptr \<Rightarrow> uintptr_t \<Rightarrow> uintptr_t \<Rightarrow> c_int \<Rightarrow> 'w state \<Rightarrow> fault + 'w state" where
  "call_int P f d0 d1 i s =
     (if f = 0 then Inl Null_call
      else case P f of
        Some (Fn_int body) \<Rightarrow>
          Inr (s\<lparr>calls := calls s @ [Call_int f d0 d1 i], foreign := body d0 d1 i (foreign s)\<rparr>)
      | _ \<Rightarrow> Inl Bad_call)"

definition call_paint ::
  "'w program \<Rightarrow> fnptr \<Rightarrow> uintptr_t \<Rightarrow> uintptr_t \<Rightarrow> handle \<Rightarrow> QEvent \<Rightarrow> 'w state
     \<Rightarrow> fault + (bool \<times> 'w state)" where
  "call_paint P f d0 d1 widget ev s =
     (if f = 0 then Inl Null_call
      else case P f of
        Some (Fn_paint body) \<Rightarrow>
          Inr (fst (body d0 d1 widget ev (foreign s)),
               s\<lparr>calls := calls s @ [Call_paint f d0 d1 widget ev],
                 foreign := snd (body d0 d1 widget ev (foreign s))\<rparr>)
      | _ \<Rightarrow> Inl Bad_call)"

section \<open>The trampolines (callback.cpp)\<close>

text \<open>\<^verbatim>\<open>void MQCallback::trigger() { callback(data0, data1); }\<close>\<close>

definition MQCallback_trigger :: "'w program \<Rightarrow> handle \<Rightarrow> 'w state \<Rightarrow> fault + 'w state" where
  "MQCallback_trigger P this s =
     (case object_at s this of
        Some (MQCallback d0 d1 cb) \<Rightarrow> call_void P cb d0 d1 s
      | _ \<Rightarrow> Inl Bad_this)"

text \<open>\<^verbatim>\<open>void MQCallback_QString::trigger(const QString &str) { callback(data0, data1, str); }\<close>\<close>

definition MQCallback_QString_trigger ::
  "'w program \<Rightarrow> handle \<Rightarrow> QString \<Rightarrow> 'w state \<Rightarrow> fault + 'w state" where
  "MQCallback_QString_trigger P this str s =
     (case object_at s this of
        Some (MQCallback_QString d0 d1 cb) \<Rightarrow> call_QString P cb d0 d1 str s
      | _ \<Rightarrow> Inl Bad_this)"

text \<open>\<^verbatim>\<open>void MQCallback_int::trigger(int i) { callback(data0, data1, i); }\<close>\<close>

definition MQCallback_int_trigger ::
  "'w program \<Rightarrow> handle \<Rightarrow> c_int \<Rightarrow> 'w state \<Rightarrow> fault + 'w state" where
  "MQCallback_int_trigger P this i s =
     (case object_at s this of
        Some (MQCallback_int d0 d1 cb) \<Rightarrow> call_int P cb d0 d1 i s
      | _ \<Rightarrow> Inl Bad_this)"

text \<open>
  \<^verbatim>\<open>new T(...)\<close>: a new cell is added to the store, the object is built in it, and the
  address of the cell is the result. Exhaustion of the free store is outside the model.
\<close>

definition operator_new :: "object \<Rightarrow> 'w state \<Rightarrow> handle \<times> 'w state" where
  "operator_new obj s = (length (heap s), s\<lparr>heap := heap s @ [Some obj]\<rparr>)"

text \<open>\<^verbatim>\<open>return new MQCallback(data0, data1, callback);\<close> and its two siblings.\<close>

definition MQCallback_new ::
  "uintptr_t \<Rightarrow> uintptr_t \<Rightarrow> fnptr \<Rightarrow> 'w state \<Rightarrow> handle \<times> 'w state" where
  "MQCallback_new d0 d1 cb s = operator_new (MQCallback d0 d1 cb) s"

definition MQCallback_int_new ::
  "uintptr_t \<Rightarrow> uintptr_t \<Rightarrow> fnptr \<Rightarrow> 'w state \<Rightarrow> handle \<times> 'w state" where
  "MQCallback_int_new d0 d1 cb s = operator_new (MQCallback_int d0 d1 cb) s"

definition MQCallback_QString_new ::
  "uintptr_t \<Rightarrow> uintptr_t \<Rightarrow> fnptr \<Rightarrow> 'w state \<Rightarrow> handle \<times> 'w state" where
  "MQCallback_QString_new d0 d1 cb s = operator_new (MQCallback_QString d0 d1 cb) s"

section \<open>The paint event filter (miniqt.cpp)\<close>

text \<open>
  \<^verbatim>\<open>static_cast<QWidget *>(receiver)\<close>: the same address at another static type; nothing is
  checked at run time.
\<close>

definition static_cast_QWidget :: "handle \<Rightarrow> handle" where
  "static_cast_QWidget receiver = receiver"

text \<open>
  \<^verbatim>\<open>
  bool MQPaintEventFilter::eventFilter(QObject *receiver, QEvent *event) {
    if (event->type() == QEvent::Paint) {
      QPaintEvent *paintEvent = static_cast<QPaintEvent *>(event);
      // TODO receivers of paintEvents are always QWidgets?
      if (callback_(data0_, data1_, static_cast<QWidget *>(receiver), *paintEvent)) {
        return true;
      }
    }
    return false;
  }
  \<close>
  The members are read only on the paint branch.
\<close>

definition MQPaintEventFilter_eventFilter ::
  "'w program \<Rightarrow> handle \<Rightarrow> handle \<Rightarrow> QEvent \<Rightarrow> 'w state \<Rightarrow> fault + (bool \<times> 'w state)" where
  "MQPaintEventFilter_eventFilter P this receiver event s =
     (if event_type event = QEvent_Paint then
        (case object_at s this of
           Some (MQPaintEventFilter d0 d1 cb) \<Rightarrow>
             (case call_paint P cb d0 d1 (static_cast_QWidget receiver) event s of
                Inl e \<Rightarrow> Inl e
              | Inr (r, s') \<Rightarrow> if r then Inr (True, s') else Inr (False, s'))
         | _ \<Rightarrow> Inl Bad_this)
      else Inr (False, s))"

text \<open>
  \<^verbatim>\<open>new (self) MQPaintEventFilter(data0, data1, callback);\<close>: placement new builds the
  filter in the cell the caller passes; no cell is added and nothing is returned.
\<close>

definition MQPaintEventFilter_constructor ::
  "handle \<Rightarrow> uintptr_t \<Rightarrow> uintptr_t \<Rightarrow> fnptr \<Rightarrow> 'w state \<Rightarrow> fault + 'w state" where
  "MQPaintEventFilter_constructor self d0 d1 cb s =
     (if self < length (heap s)
      then Inr (s\<lparr>heap := (heap s)[self := Some (MQPaintEventFilter d0 d1 cb)]\<rparr>)
      else Inl Bad_storage)"

section \<open>The toolkit's registries\<close>

text \<open>
  A trampoline is connected when a signal connection names it, as sender or as receiver;
  a filter is attached when it is registered on the chain of some watched object, and
  detached otherwise. A state is well formed when the registries name cells of the store
  only.
\<close>

definition connected :: "'w state \<Rightarrow> handle \<Rightarrow> bool" where
  "connected s h = list_ex (\<lambda>(sender, signal, receiver, method). sender = h \<or> receiver = h)
     (connections s)"

definition attached :: "'w state \<Rightarrow> handle \<Rightarrow> bool" where
  "attached s h = list_ex (\<lambda>(watched, filterObj). filterObj = h) (eventFilters s)"

definition wf :: "'w state \<Rightarrow> bool" where
  "wf s =
     (list_all (\<lambda>(sender, signal, receiver, method).
          sender < length (heap s) \<and> receiver < length (heap s)) (connections s)
      \<and> list_all (\<lambda>(watched, filterObj).
          watched < length (heap s) \<and> filterObj < length (heap s)) (eventFilters s))"

section \<open>Creating and firing several trampolines\<close>

text \<open>
  A request to create a trampoline of one of the three variants, and the list of
  handles that a list of requests yields.
\<close>

datatype creation =
    New uintptr_t uintptr_t fnptr
  | New_QString uintptr_t uintptr_t fnptr
  | New_int uintptr_t uintptr_t fnptr

fun create :: "creation \<Rightarrow> 'w state \<Rightarrow> handle \<times> 'w state" where
  "create (New d0 d1 cb) s = MQCallback_new d0 d1 cb s"
| "create (New_QString d0 d1 cb) s = MQCallback_QString_new d0 d1 cb s"
| "create (New_int d0 d1 cb) s = MQCallback_int_new d0 d1 cb s"

fun create_all :: "creation list \<Rightarrow> 'w state \<Rightarrow> handle list \<times> 'w state" where
  "create_all [] s = ([], s)"
| "create_all (c # cs) s =
     (case create c s of (h, s1) \<Rightarrow>
        case create_all cs s1 of (hs, s2) \<Rightarrow> (h # hs, s2))"

text \<open>
  The toolkit fires a signal by running the \<^verbatim>\<open>trigger\<close> slot of the connected trampoline
  with the value the signal carries; it handles one firing after the other.
\<close>

datatype arg = NoArg | StringArg QString | IntArg c_int

fun fire :: "'w program \<Rightarrow> handle \<times> arg \<Rightarrow> 'w state \<Rightarrow> fault + 'w state" where
  "fire P (h, NoArg) s = MQCallback_trigger P h s"
| "fire P (h, StringArg str) s = MQCallback_QString_trigger P h str s"
| "fire P (h, IntArg i) s = MQCallback_int_trigger P h i s"

fun fire_all :: "'w program \<Rightarrow> (handle \<times> arg) list \<Rightarrow> 'w state \<Rightarrow> fault + 'w state" where
  "fire_all P [] s = Inr s"
| "fire_all P (f # fs) s =
     (case fire P f s of Inl e \<Rightarrow> Inl e | Inr s' \<Rightarrow> fire_all P fs s')"

text \<open>
  The object a request builds, its pair of data words, whether its entry point is a
  foreign function of the shape of the value fired, and the call that firing it with a
  value must make.
\<close>

fun built :: "creation \<Rightarrow> object" where
  "built (New d0 d1 cb) = MQCallback d0 d1 cb"
| "built (New_QString d0 d1 cb) = MQCallback_QString d0 d1 cb"
| "built (New_int d0 d1 cb) = MQCallback_int d0 d1 cb"

fun words :: "creation \<Rightarrow> uintptr_t \<times> uintptr_t" where
  "words (New d0 d1 cb) = (d0, d1)"
| "words (New_QString d0 d1 cb) = (d0, d1)"
| "words (New_int d0 d1 cb) = (d0, d1)"

fun call_words :: "call \<Rightarrow> uintptr_t \<times> uintptr_t" where
  "call_words (Call_void f d0 d1) = (d0, d1)"
| "call_words (Call_QString f d0 d1 str) = (d0, d1)"
| "call_words (Call_int f d0 d1 i) = (d0, d1)"
| "call_words (Call_paint f d0 d1 widget ev) = (d0, d1)"

fun entry_ok :: "'w program \<Rightarrow> creation \<Rightarrow> arg \<Rightarrow> bool" where
  "entry_ok P (New d0 d1 cb) NoArg =
     (cb \<noteq> 0 \<and> (case P cb of Some (Fn_void body) \<Rightarrow> True | _ \<Rightarrow> False))"
| "entry_ok P (New_QString d0 d1 cb) (StringArg str) =
     (cb \<noteq> 0 \<and> (case P cb of Some (Fn_QString body) \<Rightarrow> True | _ \<Rightarrow> False))"
| "entry_ok P (New_int d0 d1 cb) (IntArg i) =
     (cb \<noteq> 0 \<and> (case P cb of Some (Fn_int body) \<Rightarrow> True | _ \<Rightarrow> False))"
| "entry_ok P c a = False"

fun delivery :: "creation \<Rightarrow> arg \<Rightarrow> call" where
  "delivery (New d0 d1 cb) a = Call_void cb d0 d1"
| "delivery (New_QString d0 d1 cb) a =
     Call_QString cb d0 d1 (case a of StringArg str \<Rightarrow> str | _ \<Rightarrow> [])"
| "delivery (New_int d0 d1 cb) a =
     Call_int cb d0 d1 (case a of IntArg i \<Rightarrow> i | _ \<Rightarrow> 0)"

text \<open>
  What the entry point of a request does to the foreign state when it is called with
  the request's own data words and the value fired.
\<close>

fun run_entry :: "'w program \<Rightarrow> creation \<Rightarrow> arg \<Rightarrow> 'w \<Rightarrow> 'w" where
  "run_entry P (New d0 d1 cb) NoArg w =
     (case P cb of Some (Fn_void body) \<Rightarrow> body d0 d1 w | _ \<Rightarrow> w)"
| "run_entry P (New_QString d0 d1 cb) (StringArg str) w =
     (case P cb of Some (Fn_QString body) \<Rightarrow> body d0 d1 str w | _ \<Rightarrow> w)"
| "run_entry P (New_int d0 d1 cb) (IntArg i) w =
     (case P cb of Some (Fn_int body) \<Rightarrow> body d0 d1 i w | _ \<Rightarrow> w)"
| "run_entry P c a w = w"

section \<open>A foreign program for the concrete scenarios\<close>

text \<open>
  The foreign side of the scenarios keeps the list of what its functions were called
  with. \<open>recordVoid\<close>, \<open>recordString\<close> and \<open>recordCall\<close> are entry points of the three
  shapes; \<open>claimPaint\<close> and \<open>passPaint\<close> are paint predicates answering \<^verbatim>\<open>true\<close> and
  \<^verbatim>\<open>false\<close>.
\<close>

datatype seen =
    Seen_void uintptr_t uintptr_t
  | Seen_QString uintptr_t uintptr_t QString
  | Seen_int uintptr_t uintptr_t c_int
  | Seen_paint uintptr_t uintptr_t handle QEvent

definition recordVoid :: "uintptr_t \<Rightarrow> uintptr_t \<Rightarrow> seen list \<Rightarrow> seen list" where
  "recordVoid d0 d1 w = w @ [Seen_void d0 d1]"

definition recordString :: "uintptr_t \<Rightarrow> uintptr_t \<Rightarrow> QString \<Rightarrow> seen list \<Rightarrow> seen list" where
  "recordString d0 d1 str w = w @ [Seen_QString d0 d1 str]"

definition recordCall :: "uintptr_t \<Rightarrow> uintptr_t \<Rightarrow> c_int \<Rightarrow> seen list \<Rightarrow> seen list" where
  "recordCall d0 d1 i w = w @ [Seen_int d0 d1 i]"

definition claimPaint ::
  "uintptr_t \<Rightarrow> uintptr_t \<Rightarrow> handle \<Rightarrow> QEvent \<Rightarrow> seen list \<Rightarrow> bool \<times> seen list" where
  "claimPaint d0 d1 widget ev w = (True, w @ [Seen_paint d0 d1 widget ev])"

definition passPaint ::
  "uintptr_t \<Rightarrow> uintptr_t \<Rightarrow> handle \<Rightarrow> QEvent \<Rightarrow> seen list \<Rightarrow> bool \<times> seen list" where
  "passPaint d0 d1 widget ev w = (False, w @ [Seen_paint d0 d1 widget ev])"

definition host :: "seen list program" where
  "host f =
     (if f = 0x1000 then Some (Fn_void recordVoid)
      else if f = 0x2000 then Some (Fn_QString recordString)
      else if f = 0x3000 then Some (Fn_int recordCall)
      else if f = 0x4000 then Some (Fn_paint claimPaint)
      else if f = 0x5000 then Some (Fn_paint passPaint)
      else None)"

definition paintEvent :: QEvent where
  "paintEvent = \<lparr>event_type = 12, payload = [1, 2, 3]\<rparr>"

definition mouseEvent :: QEvent where
  "mouseEvent = \<lparr>event_type = 2, payload = [9]\<rparr>"

text \<open>
  \<open>start\<close> has no object yet, only the null cell. \<open>stage\<close> has a widget at 1, a toolkit
  object that is no widget at 2, a paint filter answering \<^verbatim>\<open>true\<close> at 3, one answering
  \<^verbatim>\<open>false\<close> at 4 and a cell of raw storage at 5; the filter at 3 is installed on the
  widget.
\<close>

definition start :: "seen list state" where
  "start = \<lparr>heap = [None], connections = [], eventFilters = [], calls = [], foreign = []\<rparr>"

definition stage :: "seen list state" where
  "stage = \<lparr>heap = [None, Some QWidget, Some QObject, Some (MQPaintEventFilter 7 42 0x4000),
                     Some (MQPaintEventFilter 8 43 0x5000), None],
             connections = [], eventFilters = [(1, 3)], calls = [], foreign = []\<rparr>"

text \<open>\<open>trio\<close> has one trampoline of each variant, at 1, 2 and 3.\<close>

definition trio :: "seen list state" where
  "trio = \<lparr>heap = [None, Some (MQCallback 7 42 0x1000), Some (MQCallback_QString 8 43 0x2000),
                    Some (MQCallback_int 9 44 0x3000)],
            connections = [], eventFilters = [], calls = [], foreign = []\<rparr>"

text \<open>
  \<open>three\<close> asks for one trampoline of each variant, with distinct pairs of data words;
  \<open>shuffled\<close> fires the third, then the first, then the second.
\<close>

definition three :: "creation list" where
  "three = [New 1 2 0x1000, New_QString 3 4 0x2000, New_int 5 6 0x3000]"

definition shuffled :: "(nat \<times> arg) list" where
  "shuffled = [(2, IntArg 99), (0, NoArg), (1, StringArg [104])]"

section \<open>Calling through a valid pointer\<close>

lemma call_void_ok:
  "f \<noteq> 0 \<Longrightarrow> P f = Some (Fn_void body) \<Longrightarrow>
   call_void P f d0 d1 s =
     Inr (s\<lparr>calls := calls s @ [Call_void f d0 d1], foreign := body d0 d1 (foreign s)\<rparr>)"
  by (simp add: call_void_def)

lemma call_QString_ok:
  "f \<noteq> 0 \<Longrightarrow> P f = Some (Fn_QString body) \<Longrightarrow>
   call_QString P f d0 d1 str s =
     Inr (s\<lparr>calls := calls s @ [Call_QString f d0 d1 str],
            foreign := body d0 d1 str (foreign s)\<rparr>)"
  by (simp add: call_QString_def)

lemma call_int_ok:
  "f \<noteq> 0 \<Longrightarrow> P f = Some (Fn_int body) \<Longrightarrow>
   call_int P f d0 d1 i s =
     Inr (s\<lparr>calls := calls s @ [Call_int f d0 d1 i], foreign := body d0 d1 i (foreign s)\<rparr>)"
  by (simp add: call_int_def)

lemma call_paint_ok:
  "f \<noteq> 0 \<Longrightarrow> P f = Some (Fn_paint body) \<Longrightarrow>
   call_paint P f d0 d1 widget ev s =
     Inr (fst (body d0 d1 widget ev (foreign s)),
          s\<lparr>calls := calls s @ [Call_paint f d0 d1 widget ev],
            foreign := snd (body d0 d1 widget ev (foreign s))\<rparr>)"
  by (simp add: call_paint_def)

lemma object_at_operator_new:
  "operator_new obj s = (h, s') \<Longrightarrow> object_at s' h = Some obj"
  by (auto simp: operator_new_def object_at_def)

lemma eventFilter_paint_branch:
  "event_type event = QEvent_Paint \<Longrightarrow> object_at s this = Some (MQPaintEventFilter d0 d1 cb) \<Longrightarrow>
   MQPaintEventFilter_eventFilter P this receiver event s =
     (case call_paint P cb d0 d1 receiver event s of
        Inl e \<Rightarrow> Inl e
      | Inr (r, s') \<Rightarrow> Inr (r, s'))"
  by (auto simp: MQPaintEventFilter_eventFilter_def static_cast_QWidget_def
      split: sum.splits)

section \<open>The paint filter on paint requests\<close>

text \<open>
  C1. For every paint filter (an object of the class at \<open>this\<close>, whose stored predicate
  is a function of the paint shape) and every event whose type is the paint request,
  \<^verbatim>\<open>eventFilter\<close> calls the stored predicate exactly once (the record of calls grows by
  one entry), with the stored \<open>data0\<close> and \<open>data1\<close>, the receiver and the event, and
  returns what the predicate returned.
\<close>

theorem eventFilter_paint:
  assumes "event_type event = QEvent_Paint"
    and "object_at s this = Some (MQPaintEventFilter d0 d1 cb)"
    and "cb \<noteq> 0" and "P cb = Some (Fn_paint predicate)"
  shows "MQPaintEventFilter_eventFilter P this receiver event s =
           Inr (fst (predicate d0 d1 receiver event (foreign s)),
                s\<lparr>calls := calls s @ [Call_paint cb d0 d1 receiver event],
                  foreign := snd (predicate d0 d1 receiver event (foreign s))\<rparr>)"
  using assms by (simp add: eventFilter_paint_branch call_paint_ok)

theorem eventFilter_paint_witness:
  "event_type paintEvent = QEvent_Paint
   \<and> object_at stage 3 = Some (MQPaintEventFilter 7 42 0x4000)
   \<and> host 0x4000 = Some (Fn_paint claimPaint)
   \<and> MQPaintEventFilter_eventFilter host 3 1 paintEvent stage =
       Inr (True, stage\<lparr>calls := [Call_paint 0x4000 7 42 1 paintEvent],
                        foreign := [Seen_paint 7 42 1 paintEvent]\<rparr>)
   \<and> object_at stage 4 = Some (MQPaintEventFilter 8 43 0x5000)
   \<and> host 0x5000 = Some (Fn_paint passPaint)
   \<and> MQPaintEventFilter_eventFilter host 4 1 paintEvent stage =
       Inr (False, stage\<lparr>calls := [Call_paint 0x5000 8 43 1 paintEvent],
                         foreign := [Seen_paint 8 43 1 paintEvent]\<rparr>)"
  using eventFilter_paint [of paintEvent stage 3 7 42 "0x4000" host claimPaint 1]
    eventFilter_paint [of paintEvent stage 4 8 43 "0x5000" host passPaint 1]
  by (simp add: paintEvent_def QEvent_Paint_def stage_def host_def claimPaint_def
      passPaint_def object_at_def)

section \<open>The paint filter on events other than paint requests\<close>

text \<open>
  C3. For every paint filter and every event whose type is not the paint request,
  \<^verbatim>\<open>eventFilter\<close> returns \<^verbatim>\<open>false\<close> and leaves the whole state as it was: the predicate
  is not called (the record of calls is the same) and nothing else changes.
\<close>

theorem eventFilter_non_paint:
  "event_type event \<noteq> QEvent_Paint \<Longrightarrow>
   MQPaintEventFilter_eventFilter P this receiver event s = Inr (False, s)"
  by (simp add: MQPaintEventFilter_eventFilter_def)

theorem eventFilter_non_paint_witness:
  "event_type mouseEvent \<noteq> QEvent_Paint
   \<and> MQPaintEventFilter_eventFilter host 3 1 mouseEvent stage = Inr (False, stage)"
  using eventFilter_non_paint [of mouseEvent host 3 1 stage]
  by (simp add: mouseEvent_def QEvent_Paint_def)

section \<open>One firing, one call\<close>

text \<open>
  C2. For each of the three variants, a trampoline created with \<open>data0\<close>, \<open>data1\<close> and an
  entry point that is a foreign function of the variant's shape, when its \<^verbatim>\<open>trigger\<close> runs
  once, makes exactly one call: to that entry point, with the \<open>data0\<close> and \<open>data1\<close> given
  at creation and, for the typed variants, with the value \<^verbatim>\<open>trigger\<close> received. The
  foreign state is what the entry point makes of it. The scenario of the specification
  (\<open>data0 = 7\<close>, \<open>data1 = 42\<close>, fired with 99, entry point \<open>recordCall\<close>) is the
  instance proved after the theorem.
\<close>

theorem trigger_calls_entryPoint_once:
  "(cb \<noteq> 0 \<and> P cb = Some (Fn_void f) \<and> MQCallback_new d0 d1 cb s = (h, s1) \<longrightarrow>
      MQCallback_trigger P h s1 =
        Inr (s1\<lparr>calls := calls s @ [Call_void cb d0 d1], foreign := f d0 d1 (foreign s)\<rparr>))
   \<and> (cb \<noteq> 0 \<and> P cb = Some (Fn_QString g) \<and> MQCallback_QString_new d0 d1 cb s = (h, s1) \<longrightarrow>
      MQCallback_QString_trigger P h str s1 =
        Inr (s1\<lparr>calls := calls s @ [Call_QString cb d0 d1 str],
               foreign := g d0 d1 str (foreign s)\<rparr>))
   \<and> (cb \<noteq> 0 \<and> P cb = Some (Fn_int k) \<and> MQCallback_int_new d0 d1 cb s = (h, s1) \<longrightarrow>
      MQCallback_int_trigger P h i s1 =
        Inr (s1\<lparr>calls := calls s @ [Call_int cb d0 d1 i], foreign := k d0 d1 i (foreign s)\<rparr>))"
proof (intro conjI impI)
  assume a: "cb \<noteq> 0 \<and> P cb = Some (Fn_void f) \<and> MQCallback_new d0 d1 cb s = (h, s1)"
  then have "object_at s1 h = Some (MQCallback d0 d1 cb)"
    by (auto simp: MQCallback_new_def intro: object_at_operator_new)
  moreover from a have "calls s1 = calls s" "foreign s1 = foreign s"
    by (auto simp: MQCallback_new_def operator_new_def)
  ultimately show "MQCallback_trigger P h s1 =
      Inr (s1\<lparr>calls := calls s @ [Call_void cb d0 d1], foreign := f d0 d1 (foreign s)\<rparr>)"
    using a by (simp add: MQCallback_trigger_def call_void_ok)
next
  assume a: "cb \<noteq> 0 \<and> P cb = Some (Fn_QString g)
    \<and> MQCallback_QString_new d0 d1 cb s = (h, s1)"
  then have "object_at s1 h = Some (MQCallback_QString d0 d1 cb)"
    by (auto simp: MQCallback_QString_new_def intro: object_at_operator_new)
  moreover from a have "calls s1 = calls s" "foreign s1 = foreign s"
    by (auto simp: MQCallback_QString_new_def operator_new_def)
  ultimately show "MQCallback_QString_trigger P h str s1 =
      Inr (s1\<lparr>calls := calls s @ [Call_QString cb d0 d1 str],
             foreign := g d0 d1 str (foreign s)\<rparr>)"
    using a by (simp add: MQCallback_QString_trigger_def call_QString_ok)
next
  assume a: "cb \<noteq> 0 \<and> P cb = Some (Fn_int k) \<and> MQCallback_int_new d0 d1 cb s = (h, s1)"
  then have "object_at s1 h = Some (MQCallback_int d0 d1 cb)"
    by (auto simp: MQCallback_int_new_def intro: object_at_operator_new)
  moreover from a have "calls s1 = calls s" "foreign s1 = foreign s"
    by (auto simp: MQCallback_int_new_def operator_new_def)
  ultimately show "MQCallback_int_trigger P h i s1 =
      Inr (s1\<lparr>calls := calls s @ [Call_int cb d0 d1 i], foreign := k d0 d1 i (foreign s)\<rparr>)"
    using a by (simp add: MQCallback_int_trigger_def call_int_ok)
qed

theorem trigger_calls_entryPoint_once_witness:
  "host 0x3000 = Some (Fn_int recordCall)
   \<and> MQCallback_int_new 7 42 0x3000 start =
       (1, start\<lparr>heap := [None, Some (MQCallback_int 7 42 0x3000)]\<rparr>)
   \<and> MQCallback_int_trigger host 1 99
         (start\<lparr>heap := [None, Some (MQCallback_int 7 42 0x3000)]\<rparr>) =
       Inr (start\<lparr>heap := [None, Some (MQCallback_int 7 42 0x3000)],
                  calls := [Call_int 0x3000 7 42 99], foreign := [Seen_int 7 42 99]\<rparr>)
   \<and> host 0x1000 = Some (Fn_void recordVoid)
   \<and> MQCallback_new 7 42 0x1000 start =
       (1, start\<lparr>heap := [None, Some (MQCallback 7 42 0x1000)]\<rparr>)
   \<and> MQCallback_trigger host 1 (start\<lparr>heap := [None, Some (MQCallback 7 42 0x1000)]\<rparr>) =
       Inr (start\<lparr>heap := [None, Some (MQCallback 7 42 0x1000)],
                  calls := [Call_void 0x1000 7 42], foreign := [Seen_void 7 42]\<rparr>)
   \<and> host 0x2000 = Some (Fn_QString recordString)
   \<and> MQCallback_QString_new 7 42 0x2000 start =
       (1, start\<lparr>heap := [None, Some (MQCallback_QString 7 42 0x2000)]\<rparr>)
   \<and> MQCallback_QString_trigger host 1 [104, 105]
         (start\<lparr>heap := [None, Some (MQCallback_QString 7 42 0x2000)]\<rparr>) =
       Inr (start\<lparr>heap := [None, Some (MQCallback_QString 7 42 0x2000)],
                  calls := [Call_QString 0x2000 7 42 [104, 105]],
                  foreign := [Seen_QString 7 42 [104, 105]]\<rparr>)"
  using
    trigger_calls_entryPoint_once [where cb = "0x3000" and P = host and k = recordCall
      and ?d0.0 = 7 and ?d1.0 = 42 and s = start and h = 1 and i = 99
      and ?s1.0 = "start\<lparr>heap := [None, Some (MQCallback_int 7 42 0x3000)]\<rparr>"]
    trigger_calls_entryPoint_once [where cb = "0x1000" and P = host and f = recordVoid
      and ?d0.0 = 7 and ?d1.0 = 42 and s = start and h = 1
      and ?s1.0 = "start\<lparr>heap := [None, Some (MQCallback 7 42 0x1000)]\<rparr>"]
    trigger_calls_entryPoint_once [where cb = "0x2000" and P = host and g = recordString
      and ?d0.0 = 7 and ?d1.0 = 42 and s = start and h = 1 and str = "[104, 105]"
      and ?s1.0 = "start\<lparr>heap := [None, Some (MQCallback_QString 7 42 0x2000)]\<rparr>"]
  by (simp add: host_def start_def recordCall_def recordVoid_def recordString_def
      MQCallback_int_new_def MQCallback_new_def MQCallback_QString_new_def operator_new_def)

section \<open>Paint requests for receivers that are not widgets\<close>

text \<open>
  C4, as claimed: a paint event whose receiver is not a widget is dropped without calling
  the predicate. The code does not look at the class of the receiver. In \<open>stage\<close> the
  object at 2 is no widget; the filter at 3, given a paint event for it, calls its
  predicate with 2 as the widget and returns the predicate's \<^verbatim>\<open>true\<close>.
\<close>

theorem eventFilter_non_widget_counterexample:
  "object_at stage 2 = Some QObject
   \<and> event_type paintEvent = QEvent_Paint
   \<and> MQPaintEventFilter_eventFilter host 3 2 paintEvent stage =
       Inr (True, stage\<lparr>calls := [Call_paint 0x4000 7 42 2 paintEvent],
                        foreign := [Seen_paint 7 42 2 paintEvent]\<rparr>)
   \<and> MQPaintEventFilter_eventFilter host 3 2 paintEvent stage \<noteq> Inr (False, stage)"
  by (simp add: eventFilter_paint_branch [where ?d0.0 = 7 and ?d1.0 = 42 and cb = "0x4000"]
      call_paint_def stage_def host_def claimPaint_def paintEvent_def QEvent_Paint_def
      object_at_def)

text \<open>
  C4, amended: for every paint event whose receiver is not a widget, \<^verbatim>\<open>eventFilter\<close> does
  as for any other receiver: the receiver's address is converted without a check, the
  predicate is called exactly once with it, and the predicate's result is returned.
\<close>

theorem eventFilter_non_widget:
  assumes "object_at s receiver \<noteq> Some QWidget"
    and "event_type event = QEvent_Paint"
    and "object_at s this = Some (MQPaintEventFilter d0 d1 cb)"
    and "cb \<noteq> 0" and "P cb = Some (Fn_paint predicate)"
  shows "MQPaintEventFilter_eventFilter P this receiver event s =
           Inr (fst (predicate d0 d1 receiver event (foreign s)),
                s\<lparr>calls := calls s @ [Call_paint cb d0 d1 receiver event],
                  foreign := snd (predicate d0 d1 receiver event (foreign s))\<rparr>)"
  using assms(2-) by (simp add: eventFilter_paint_branch call_paint_ok)

theorem eventFilter_non_widget_witness:
  "object_at stage 2 \<noteq> Some QWidget
   \<and> event_type paintEvent = QEvent_Paint
   \<and> object_at stage 4 = Some (MQPaintEventFilter 8 43 0x5000)
   \<and> host 0x5000 = Some (Fn_paint passPaint)
   \<and> MQPaintEventFilter_eventFilter host 4 2 paintEvent stage =
       Inr (False, stage\<lparr>calls := [Call_paint 0x5000 8 43 2 paintEvent],
                         foreign := [Seen_paint 8 43 2 paintEvent]\<rparr>)"
  using eventFilter_non_widget [of stage 2 paintEvent 4 8 43 "0x5000" host passPaint]
  by (simp add: paintEvent_def QEvent_Paint_def stage_def host_def passPaint_def
      object_at_def)

section \<open>Creation wires nothing\<close>

lemma operator_new_frame:
  "operator_new obj s = (h, s') \<Longrightarrow>
   h = length (heap s) \<and> heap s' = heap s @ [Some obj] \<and> connections s' = connections s
   \<and> eventFilters s' = eventFilters s \<and> calls s' = calls s \<and> foreign s' = foreign s"
  by (auto simp: operator_new_def)

lemma wf_not_connected: "wf s \<Longrightarrow> \<not> connected s (length (heap s))"
  by (auto simp: wf_def connected_def list_all_iff list_ex_iff)

lemma wf_not_attached: "wf s \<Longrightarrow> \<not> attached s (length (heap s))"
  by (auto simp: wf_def attached_def list_all_iff list_ex_iff)

lemma operator_new_detached:
  assumes "wf s" and "operator_new obj s = (h, s')"
  shows "\<not> connected s' h \<and> \<not> attached s' h"
proof -
  from assms(2) have "h = length (heap s)" "connections s' = connections s"
    "eventFilters s' = eventFilters s"
    by (simp_all add: operator_new_frame)
  with wf_not_connected [OF assms(1)] wf_not_attached [OF assms(1)] show ?thesis
    by (simp add: connected_def attached_def)
qed

lemma operator_new_wires_nothing:
  "wf s \<and> operator_new obj s = (h, s') \<Longrightarrow>
   heap s' = heap s @ [Some obj] \<and> connections s' = connections s
   \<and> eventFilters s' = eventFilters s \<and> calls s' = calls s \<and> foreign s' = foreign s
   \<and> \<not> connected s' h \<and> \<not> attached s' h"
  using operator_new_frame [of obj s h s'] operator_new_detached [of s obj h s'] by simp

text \<open>
  C6. Creating a trampoline, of any of the three variants and for every input, adds
  one cell holding the object built from (\<open>data0\<close>, \<open>data1\<close>, \<open>callback\<close>) and changes
  nothing else: the connections and the filter registrations are as before, and no call
  is made. In a well-formed state the new trampoline is named by no connection and by no
  registration. Creating a paint filter changes no registry either, so that a filter
  built in storage that was not registered is detached. Wiring is left to whoever calls
  the toolkit afterwards.
\<close>

theorem create_wires_nothing:
  "(wf s \<and> MQCallback_new d0 d1 cb s = (h, s') \<longrightarrow>
      heap s' = heap s @ [Some (MQCallback d0 d1 cb)]
      \<and> connections s' = connections s \<and> eventFilters s' = eventFilters s
      \<and> calls s' = calls s \<and> foreign s' = foreign s
      \<and> \<not> connected s' h \<and> \<not> attached s' h)
   \<and> (wf s \<and> MQCallback_int_new d0 d1 cb s = (h, s') \<longrightarrow>
      heap s' = heap s @ [Some (MQCallback_int d0 d1 cb)]
      \<and> connections s' = connections s \<and> eventFilters s' = eventFilters s
      \<and> calls s' = calls s \<and> foreign s' = foreign s
      \<and> \<not> connected s' h \<and> \<not> attached s' h)
   \<and> (wf s \<and> MQCallback_QString_new d0 d1 cb s = (h, s') \<longrightarrow>
      heap s' = heap s @ [Some (MQCallback_QString d0 d1 cb)]
      \<and> connections s' = connections s \<and> eventFilters s' = eventFilters s
      \<and> calls s' = calls s \<and> foreign s' = foreign s
      \<and> \<not> connected s' h \<and> \<not> attached s' h)
   \<and> (\<not> attached s self \<and> MQPaintEventFilter_constructor self d0 d1 cb s = Inr t \<longrightarrow>
      connections t = connections s \<and> eventFilters t = eventFilters s
      \<and> calls t = calls s \<and> foreign t = foreign s
      \<and> connected t self = connected s self \<and> \<not> attached t self)"
proof -
  have filter: "connections t = connections s \<and> eventFilters t = eventFilters s
      \<and> calls t = calls s \<and> foreign t = foreign s
      \<and> connected t self = connected s self \<and> \<not> attached t self"
    if a: "\<not> attached s self \<and> MQPaintEventFilter_constructor self d0 d1 cb s = Inr t"
  proof -
    from a have t: "t = s\<lparr>heap := (heap s)[self := Some (MQPaintEventFilter d0 d1 cb)]\<rparr>"
      by (auto simp: MQPaintEventFilter_constructor_def split: if_splits)
    from a show ?thesis
      by (simp add: t connected_def attached_def)
  qed
  show ?thesis
    unfolding MQCallback_new_def MQCallback_int_new_def MQCallback_QString_new_def
    using operator_new_wires_nothing filter by blast
qed

theorem create_wires_nothing_witness:
  "wf stage
   \<and> MQCallback_new 7 42 0x1000 stage =
       (6, stage\<lparr>heap := heap stage @ [Some (MQCallback 7 42 0x1000)]\<rparr>)
   \<and> \<not> connected (stage\<lparr>heap := heap stage @ [Some (MQCallback 7 42 0x1000)]\<rparr>) 6
   \<and> \<not> attached (stage\<lparr>heap := heap stage @ [Some (MQCallback 7 42 0x1000)]\<rparr>) 6
   \<and> MQCallback_int_new 7 42 0x3000 stage =
       (6, stage\<lparr>heap := heap stage @ [Some (MQCallback_int 7 42 0x3000)]\<rparr>)
   \<and> \<not> connected (stage\<lparr>heap := heap stage @ [Some (MQCallback_int 7 42 0x3000)]\<rparr>) 6
   \<and> MQCallback_QString_new 7 42 0x2000 stage =
       (6, stage\<lparr>heap := heap stage @ [Some (MQCallback_QString 7 42 0x2000)]\<rparr>)
   \<and> \<not> connected (stage\<lparr>heap := heap stage @ [Some (MQCallback_QString 7 42 0x2000)]\<rparr>) 6
   \<and> \<not> attached stage 5
   \<and> MQPaintEventFilter_constructor 5 9 44 0x4000 stage =
       Inr (stage\<lparr>heap := (heap stage)[5 := Some (MQPaintEventFilter 9 44 0x4000)]\<rparr>)
   \<and> \<not> attached (stage\<lparr>heap := (heap stage)[5 := Some (MQPaintEventFilter 9 44 0x4000)]\<rparr>) 5
   \<and> eventFilters (stage\<lparr>heap := (heap stage)[5 := Some (MQPaintEventFilter 9 44 0x4000)]\<rparr>)
       = [(1, 3)]"
proof -
  have w: "wf stage"
    by (simp add: wf_def stage_def)
  have n1: "MQCallback_new 7 42 0x1000 stage =
      (6, stage\<lparr>heap := heap stage @ [Some (MQCallback 7 42 0x1000)]\<rparr>)"
    by (simp add: MQCallback_new_def operator_new_def stage_def)
  have n2: "MQCallback_int_new 7 42 0x3000 stage =
      (6, stage\<lparr>heap := heap stage @ [Some (MQCallback_int 7 42 0x3000)]\<rparr>)"
    by (simp add: MQCallback_int_new_def operator_new_def stage_def)
  have n3: "MQCallback_QString_new 7 42 0x2000 stage =
      (6, stage\<lparr>heap := heap stage @ [Some (MQCallback_QString 7 42 0x2000)]\<rparr>)"
    by (simp add: MQCallback_QString_new_def operator_new_def stage_def)
  have d: "\<not> attached stage 5"
    by (simp add: attached_def stage_def)
  have n4: "MQPaintEventFilter_constructor 5 9 44 0x4000 stage =
      Inr (stage\<lparr>heap := (heap stage)[5 := Some (MQPaintEventFilter 9 44 0x4000)]\<rparr>)"
    by (simp add: MQPaintEventFilter_constructor_def stage_def)
  have e: "eventFilters stage = [(1, 3)]"
    by (simp add: stage_def)
  note c1 = create_wires_nothing [where s = stage and ?d0.0 = 7 and ?d1.0 = 42
      and cb = "0x1000" and h = 6
      and s' = "stage\<lparr>heap := heap stage @ [Some (MQCallback 7 42 0x1000)]\<rparr>",
      THEN conjunct1]
  note c2 = create_wires_nothing [where s = stage and ?d0.0 = 7 and ?d1.0 = 42
      and cb = "0x3000" and h = 6
      and s' = "stage\<lparr>heap := heap stage @ [Some (MQCallback_int 7 42 0x3000)]\<rparr>",
      THEN conjunct2, THEN conjunct1]
  note c3 = create_wires_nothing [where s = stage and ?d0.0 = 7 and ?d1.0 = 42
      and cb = "0x2000" and h = 6
      and s' = "stage\<lparr>heap := heap stage @ [Some (MQCallback_QString 7 42 0x2000)]\<rparr>",
      THEN conjunct2, THEN conjunct2, THEN conjunct1]
  note c4 = create_wires_nothing [where s = stage and ?d0.0 = 9 and ?d1.0 = 44
      and cb = "0x4000" and self = 5
      and t = "stage\<lparr>heap := (heap stage)[5 := Some (MQPaintEventFilter 9 44 0x4000)]\<rparr>",
      THEN conjunct2, THEN conjunct2, THEN conjunct2]
  show ?thesis
    using w d e c1 c2 c3 c4 unfolding n1 n2 n3 n4 by simp
qed

section \<open>Creation checks nothing\<close>

lemma object_at_placement:
  "self < length (heap s) \<Longrightarrow>
   object_at (s\<lparr>heap := (heap s)[self := Some obj]\<rparr>) h =
     (if h = self then Some obj else object_at s h)"
  by (simp add: object_at_def nth_list_update)

text \<open>
  C7. Creation succeeds for every (\<open>data0\<close>, \<open>data1\<close>, \<open>callback\<close>): each of the three
  trampoline creations returns a handle at which the object holds exactly the three
  values, and the filter's constructor, given storage, builds the filter with exactly
  the three values. The null entry point is stored like any other: nothing rejects it at
  creation, and nothing guards the call either, which is then a call through a null
  pointer.
\<close>

theorem create_never_fails:
  "(\<exists>h s'. MQCallback_new d0 d1 cb s = (h, s') \<and> object_at s' h = Some (MQCallback d0 d1 cb))
   \<and> (\<exists>h s'. MQCallback_int_new d0 d1 cb s = (h, s')
         \<and> object_at s' h = Some (MQCallback_int d0 d1 cb))
   \<and> (\<exists>h s'. MQCallback_QString_new d0 d1 cb s = (h, s')
         \<and> object_at s' h = Some (MQCallback_QString d0 d1 cb))
   \<and> (self < length (heap s) \<longrightarrow>
        (\<exists>s'. MQPaintEventFilter_constructor self d0 d1 cb s = Inr s'
           \<and> object_at s' self = Some (MQPaintEventFilter d0 d1 cb)))
   \<and> (\<exists>h s'. MQCallback_new d0 d1 0 s = (h, s') \<and> object_at s' h = Some (MQCallback d0 d1 0)
         \<and> MQCallback_trigger P h s' = Inl Null_call)
   \<and> (\<exists>h s'. MQCallback_int_new d0 d1 0 s = (h, s')
         \<and> object_at s' h = Some (MQCallback_int d0 d1 0)
         \<and> MQCallback_int_trigger P h i s' = Inl Null_call)
   \<and> (\<exists>h s'. MQCallback_QString_new d0 d1 0 s = (h, s')
         \<and> object_at s' h = Some (MQCallback_QString d0 d1 0)
         \<and> MQCallback_QString_trigger P h str s' = Inl Null_call)
   \<and> (self < length (heap s) \<and> event_type event = QEvent_Paint \<longrightarrow>
        (\<exists>s'. MQPaintEventFilter_constructor self d0 d1 0 s = Inr s'
           \<and> object_at s' self = Some (MQPaintEventFilter d0 d1 0)
           \<and> MQPaintEventFilter_eventFilter P self receiver event s' = Inl Null_call))"
proof -
  have new: "\<And>obj. \<exists>h s'. operator_new obj s = (h, s') \<and> object_at s' h = Some obj"
    by (simp add: operator_new_def object_at_def)
  have null_void: "\<And>h s'. object_at s' h = Some (MQCallback d0 d1 0) \<Longrightarrow>
      MQCallback_trigger P h s' = Inl Null_call"
    by (simp add: MQCallback_trigger_def call_void_def)
  have null_int: "\<And>h s'. object_at s' h = Some (MQCallback_int d0 d1 0) \<Longrightarrow>
      MQCallback_int_trigger P h i s' = Inl Null_call"
    by (simp add: MQCallback_int_trigger_def call_int_def)
  have null_str: "\<And>h s'. object_at s' h = Some (MQCallback_QString d0 d1 0) \<Longrightarrow>
      MQCallback_QString_trigger P h str s' = Inl Null_call"
    by (simp add: MQCallback_QString_trigger_def call_QString_def)
  have null_paint: "\<And>s'. event_type event = QEvent_Paint \<Longrightarrow>
      object_at s' self = Some (MQPaintEventFilter d0 d1 0) \<Longrightarrow>
      MQPaintEventFilter_eventFilter P self receiver event s' = Inl Null_call"
    by (simp add: eventFilter_paint_branch call_paint_def)
  have placed: "\<And>c. self < length (heap s) \<Longrightarrow>
      \<exists>s'. MQPaintEventFilter_constructor self d0 d1 c s = Inr s'
        \<and> object_at s' self = Some (MQPaintEventFilter d0 d1 c)"
    by (simp add: MQPaintEventFilter_constructor_def object_at_placement)
  show ?thesis
    unfolding MQCallback_new_def MQCallback_int_new_def MQCallback_QString_new_def
    using new null_void null_int null_str null_paint placed by metis
qed

theorem create_never_fails_witness:
  "5 < length (heap stage) \<and> event_type paintEvent = QEvent_Paint
   \<and> MQPaintEventFilter_constructor 5 7 42 0 stage =
       Inr (stage\<lparr>heap := (heap stage)[5 := Some (MQPaintEventFilter 7 42 0)]\<rparr>)
   \<and> MQPaintEventFilter_eventFilter host 5 1 paintEvent
         (stage\<lparr>heap := (heap stage)[5 := Some (MQPaintEventFilter 7 42 0)]\<rparr>) = Inl Null_call
   \<and> MQCallback_new 7 42 0 stage = (6, stage\<lparr>heap := heap stage @ [Some (MQCallback 7 42 0)]\<rparr>)
   \<and> MQCallback_trigger host 6 (stage\<lparr>heap := heap stage @ [Some (MQCallback 7 42 0)]\<rparr>)
       = Inl Null_call"
proof -
  have l: "5 < length (heap stage)" and p: "event_type paintEvent = QEvent_Paint"
    by (simp_all add: stage_def paintEvent_def QEvent_Paint_def)
  have c: "\<And>s'. MQPaintEventFilter_constructor 5 7 42 0 stage = Inr s' \<longleftrightarrow>
      s' = stage\<lparr>heap := (heap stage)[5 := Some (MQPaintEventFilter 7 42 0)]\<rparr>"
    using l by (auto simp: MQPaintEventFilter_constructor_def)
  have n: "\<And>h s'. MQCallback_new 7 42 0 stage = (h, s') \<longleftrightarrow>
      h = 6 \<and> s' = stage\<lparr>heap := heap stage @ [Some (MQCallback 7 42 0)]\<rparr>"
    by (auto simp: MQCallback_new_def operator_new_def stage_def)
  show ?thesis
    using l p create_never_fails [where self = 5 and s = stage and ?d0.0 = 7 and ?d1.0 = 42
        and event = paintEvent and P = host and receiver = 1 and cb = 0 and i = 0
        and str = "[]"]
    by (simp add: c n)
qed

section \<open>The stored members never change\<close>

lemma MQCallback_trigger_Inr:
  "MQCallback_trigger P this s = Inr s1 \<Longrightarrow>
   \<exists>d0 d1 cb body. object_at s this = Some (MQCallback d0 d1 cb) \<and> cb \<noteq> 0
     \<and> P cb = Some (Fn_void body)
     \<and> s1 = s\<lparr>calls := calls s @ [Call_void cb d0 d1], foreign := body d0 d1 (foreign s)\<rparr>"
  by (auto simp: MQCallback_trigger_def call_void_def
      split: option.splits object.splits if_splits foreign_fn.splits)

lemma MQCallback_QString_trigger_Inr:
  "MQCallback_QString_trigger P this str s = Inr s1 \<Longrightarrow>
   \<exists>d0 d1 cb body. object_at s this = Some (MQCallback_QString d0 d1 cb) \<and> cb \<noteq> 0
     \<and> P cb = Some (Fn_QString body)
     \<and> s1 = s\<lparr>calls := calls s @ [Call_QString cb d0 d1 str],
              foreign := body d0 d1 str (foreign s)\<rparr>"
  by (auto simp: MQCallback_QString_trigger_def call_QString_def
      split: option.splits object.splits if_splits foreign_fn.splits)

lemma MQCallback_int_trigger_Inr:
  "MQCallback_int_trigger P this i s = Inr s1 \<Longrightarrow>
   \<exists>d0 d1 cb body. object_at s this = Some (MQCallback_int d0 d1 cb) \<and> cb \<noteq> 0
     \<and> P cb = Some (Fn_int body)
     \<and> s1 = s\<lparr>calls := calls s @ [Call_int cb d0 d1 i], foreign := body d0 d1 i (foreign s)\<rparr>"
  by (auto simp: MQCallback_int_trigger_def call_int_def
      split: option.splits object.splits if_splits foreign_fn.splits)

lemma eventFilter_paint_Inr:
  "MQPaintEventFilter_eventFilter P this receiver event s = Inr (b, s1) \<Longrightarrow>
   event_type event = QEvent_Paint \<Longrightarrow>
   \<exists>d0 d1 cb body. object_at s this = Some (MQPaintEventFilter d0 d1 cb) \<and> cb \<noteq> 0
     \<and> P cb = Some (Fn_paint body)
     \<and> b = fst (body d0 d1 receiver event (foreign s))
     \<and> s1 = s\<lparr>calls := calls s @ [Call_paint cb d0 d1 receiver event],
              foreign := snd (body d0 d1 receiver event (foreign s))\<rparr>"
  by (auto simp: MQPaintEventFilter_eventFilter_def call_paint_def static_cast_QWidget_def
      split: option.splits object.splits if_splits foreign_fn.splits)

lemma object_at_calls_foreign [simp]:
  "object_at (s\<lparr>calls := c, foreign := w\<rparr>) h = object_at s h"
  by (simp add: object_at_def)

lemma trigger_twice:
  assumes "MQCallback_trigger P this s = Inr s1"
  shows "heap s1 = heap s \<and> connections s1 = connections s \<and> eventFilters s1 = eventFilters s
    \<and> (\<exists>c s2. calls s1 = calls s @ [c] \<and> MQCallback_trigger P this s1 = Inr s2
          \<and> heap s2 = heap s \<and> calls s2 = calls s1 @ [c])"
proof -
  from MQCallback_trigger_Inr [OF assms] obtain d0 d1 cb body where
    o: "object_at s this = Some (MQCallback d0 d1 cb)" and c: "cb \<noteq> 0"
    and p: "P cb = Some (Fn_void body)"
    and s1: "s1 = s\<lparr>calls := calls s @ [Call_void cb d0 d1], foreign := body d0 d1 (foreign s)\<rparr>"
    by blast
  have "object_at s1 this = Some (MQCallback d0 d1 cb)"
    by (simp add: s1 o)
  then have "MQCallback_trigger P this s1 =
      Inr (s1\<lparr>calls := calls s1 @ [Call_void cb d0 d1], foreign := body d0 d1 (foreign s1)\<rparr>)"
    using c p by (simp add: MQCallback_trigger_def call_void_ok)
  then show ?thesis
    by (simp add: s1)
qed

lemma trigger_QString_twice:
  assumes "MQCallback_QString_trigger P this str s = Inr s1"
  shows "heap s1 = heap s \<and> connections s1 = connections s \<and> eventFilters s1 = eventFilters s
    \<and> (\<exists>c s2. calls s1 = calls s @ [c] \<and> MQCallback_QString_trigger P this str s1 = Inr s2
          \<and> heap s2 = heap s \<and> calls s2 = calls s1 @ [c])"
proof -
  from MQCallback_QString_trigger_Inr [OF assms] obtain d0 d1 cb body where
    o: "object_at s this = Some (MQCallback_QString d0 d1 cb)" and c: "cb \<noteq> 0"
    and p: "P cb = Some (Fn_QString body)"
    and s1: "s1 = s\<lparr>calls := calls s @ [Call_QString cb d0 d1 str],
      foreign := body d0 d1 str (foreign s)\<rparr>"
    by blast
  have "object_at s1 this = Some (MQCallback_QString d0 d1 cb)"
    by (simp add: s1 o)
  then have "MQCallback_QString_trigger P this str s1 =
      Inr (s1\<lparr>calls := calls s1 @ [Call_QString cb d0 d1 str],
             foreign := body d0 d1 str (foreign s1)\<rparr>)"
    using c p by (simp add: MQCallback_QString_trigger_def call_QString_ok)
  then show ?thesis
    by (simp add: s1)
qed

lemma trigger_int_twice:
  assumes "MQCallback_int_trigger P this i s = Inr s1"
  shows "heap s1 = heap s \<and> connections s1 = connections s \<and> eventFilters s1 = eventFilters s
    \<and> (\<exists>c s2. calls s1 = calls s @ [c] \<and> MQCallback_int_trigger P this i s1 = Inr s2
          \<and> heap s2 = heap s \<and> calls s2 = calls s1 @ [c])"
proof -
  from MQCallback_int_trigger_Inr [OF assms] obtain d0 d1 cb body where
    o: "object_at s this = Some (MQCallback_int d0 d1 cb)" and c: "cb \<noteq> 0"
    and p: "P cb = Some (Fn_int body)"
    and s1: "s1 = s\<lparr>calls := calls s @ [Call_int cb d0 d1 i],
      foreign := body d0 d1 i (foreign s)\<rparr>"
    by blast
  have "object_at s1 this = Some (MQCallback_int d0 d1 cb)"
    by (simp add: s1 o)
  then have "MQCallback_int_trigger P this i s1 =
      Inr (s1\<lparr>calls := calls s1 @ [Call_int cb d0 d1 i], foreign := body d0 d1 i (foreign s1)\<rparr>)"
    using c p by (simp add: MQCallback_int_trigger_def call_int_ok)
  then show ?thesis
    by (simp add: s1)
qed

lemma eventFilter_twice:
  assumes "MQPaintEventFilter_eventFilter P this receiver event s = Inr (b, s1)"
  shows "heap s1 = heap s \<and> connections s1 = connections s \<and> eventFilters s1 = eventFilters s
    \<and> (\<exists>cs b2 s2. calls s1 = calls s @ cs
          \<and> MQPaintEventFilter_eventFilter P this receiver event s1 = Inr (b2, s2)
          \<and> heap s2 = heap s \<and> calls s2 = calls s1 @ cs)"
proof (cases "event_type event = QEvent_Paint")
  case False
  with assms have "s1 = s"
    by (simp add: MQPaintEventFilter_eventFilter_def)
  with False show ?thesis
    by (auto simp: MQPaintEventFilter_eventFilter_def)
next
  case True
  from eventFilter_paint_Inr [OF assms True] obtain d0 d1 cb body where
    o: "object_at s this = Some (MQPaintEventFilter d0 d1 cb)" and c: "cb \<noteq> 0"
    and p: "P cb = Some (Fn_paint body)"
    and s1: "s1 = s\<lparr>calls := calls s @ [Call_paint cb d0 d1 receiver event],
      foreign := snd (body d0 d1 receiver event (foreign s))\<rparr>"
    by blast
  have "object_at s1 this = Some (MQPaintEventFilter d0 d1 cb)"
    by (simp add: s1 o)
  with True have "MQPaintEventFilter_eventFilter P this receiver event s1 =
      Inr (fst (body d0 d1 receiver event (foreign s1)),
           s1\<lparr>calls := calls s1 @ [Call_paint cb d0 d1 receiver event],
             foreign := snd (body d0 d1 receiver event (foreign s1))\<rparr>)"
    using c p by (simp add: eventFilter_paint_branch call_paint_ok)
  then show ?thesis
    by (simp add: s1)
qed

lemma eventFilter_depends_on:
  assumes "object_at s this = object_at t this" and "foreign s = foreign t"
  shows "map_sum id fst (MQPaintEventFilter_eventFilter P this receiver event s) =
         map_sum id fst (MQPaintEventFilter_eventFilter P this receiver event t)"
  using assms
  by (auto simp: MQPaintEventFilter_eventFilter_def call_paint_def
      split: option.splits object.splits foreign_fn.splits)

text \<open>
  C8. No invocation writes to the object: whenever \<^verbatim>\<open>trigger\<close> (of any variant) or
  \<^verbatim>\<open>eventFilter\<close> returns, the object store is the one before the invocation, and so are
  the registries. Hence the invocation can be repeated, and the second one passes the
  same call with the same data words as the first. What \<^verbatim>\<open>eventFilter\<close> returns is
  determined by the filter's members, the receiver, the event and the foreign state:
  two states that agree on these give the same result.
\<close>

theorem members_never_modified:
  "(MQCallback_trigger P this s = Inr s1 \<longrightarrow>
      heap s1 = heap s \<and> connections s1 = connections s \<and> eventFilters s1 = eventFilters s
      \<and> (\<exists>c s2. calls s1 = calls s @ [c] \<and> MQCallback_trigger P this s1 = Inr s2
            \<and> heap s2 = heap s \<and> calls s2 = calls s1 @ [c]))
   \<and> (MQCallback_QString_trigger P this str s = Inr s1 \<longrightarrow>
      heap s1 = heap s \<and> connections s1 = connections s \<and> eventFilters s1 = eventFilters s
      \<and> (\<exists>c s2. calls s1 = calls s @ [c] \<and> MQCallback_QString_trigger P this str s1 = Inr s2
            \<and> heap s2 = heap s \<and> calls s2 = calls s1 @ [c]))
   \<and> (MQCallback_int_trigger P this i s = Inr s1 \<longrightarrow>
      heap s1 = heap s \<and> connections s1 = connections s \<and> eventFilters s1 = eventFilters s
      \<and> (\<exists>c s2. calls s1 = calls s @ [c] \<and> MQCallback_int_trigger P this i s1 = Inr s2
            \<and> heap s2 = heap s \<and> calls s2 = calls s1 @ [c]))
   \<and> (MQPaintEventFilter_eventFilter P this receiver event s = Inr (b, s1) \<longrightarrow>
      heap s1 = heap s \<and> connections s1 = connections s \<and> eventFilters s1 = eventFilters s
      \<and> (\<exists>cs b2 s2. calls s1 = calls s @ cs
            \<and> MQPaintEventFilter_eventFilter P this receiver event s1 = Inr (b2, s2)
            \<and> heap s2 = heap s \<and> calls s2 = calls s1 @ cs))
   \<and> (object_at s this = object_at t this \<and> foreign s = foreign t \<longrightarrow>
      map_sum id fst (MQPaintEventFilter_eventFilter P this receiver event s) =
      map_sum id fst (MQPaintEventFilter_eventFilter P this receiver event t))"
  using trigger_twice [of P this s s1] trigger_QString_twice [of P this str s s1]
    trigger_int_twice [of P this i s s1] eventFilter_twice [of P this receiver event s b s1]
    eventFilter_depends_on [of s this t P receiver event]
  by blast

theorem members_never_modified_witness:
  "MQCallback_trigger host 1 trio =
       Inr (trio\<lparr>calls := [Call_void 0x1000 7 42], foreign := [Seen_void 7 42]\<rparr>)
   \<and> heap (trio\<lparr>calls := [Call_void 0x1000 7 42], foreign := [Seen_void 7 42]\<rparr>) = heap trio
   \<and> (\<exists>c s2. calls (trio\<lparr>calls := [Call_void 0x1000 7 42], foreign := [Seen_void 7 42]\<rparr>)
           = calls trio @ [c]
         \<and> MQCallback_trigger host 1
             (trio\<lparr>calls := [Call_void 0x1000 7 42], foreign := [Seen_void 7 42]\<rparr>) = Inr s2
         \<and> heap s2 = heap trio \<and> calls s2 = [Call_void 0x1000 7 42, c])
   \<and> MQCallback_QString_trigger host 2 [104] trio =
       Inr (trio\<lparr>calls := [Call_QString 0x2000 8 43 [104]],
                 foreign := [Seen_QString 8 43 [104]]\<rparr>)
   \<and> (\<exists>c s2. MQCallback_QString_trigger host 2 [104]
             (trio\<lparr>calls := [Call_QString 0x2000 8 43 [104]],
                   foreign := [Seen_QString 8 43 [104]]\<rparr>) = Inr s2
         \<and> heap s2 = heap trio \<and> calls s2 = [Call_QString 0x2000 8 43 [104], c])
   \<and> MQCallback_int_trigger host 3 99 trio =
       Inr (trio\<lparr>calls := [Call_int 0x3000 9 44 99], foreign := [Seen_int 9 44 99]\<rparr>)
   \<and> (\<exists>c s2. MQCallback_int_trigger host 3 99
             (trio\<lparr>calls := [Call_int 0x3000 9 44 99], foreign := [Seen_int 9 44 99]\<rparr>) = Inr s2
         \<and> heap s2 = heap trio \<and> calls s2 = [Call_int 0x3000 9 44 99, c])
   \<and> MQPaintEventFilter_eventFilter host 3 1 paintEvent stage =
       Inr (True, stage\<lparr>calls := [Call_paint 0x4000 7 42 1 paintEvent],
                        foreign := [Seen_paint 7 42 1 paintEvent]\<rparr>)
   \<and> (\<exists>cs b2 s2. MQPaintEventFilter_eventFilter host 3 1 paintEvent
             (stage\<lparr>calls := [Call_paint 0x4000 7 42 1 paintEvent],
                    foreign := [Seen_paint 7 42 1 paintEvent]\<rparr>) = Inr (b2, s2)
         \<and> heap s2 = heap stage \<and> calls s2 = Call_paint 0x4000 7 42 1 paintEvent # cs)
   \<and> object_at stage 4 = object_at (stage\<lparr>calls := [Call_void 0x1000 7 42]\<rparr>) 4
   \<and> foreign stage = foreign (stage\<lparr>calls := [Call_void 0x1000 7 42]\<rparr>)
   \<and> map_sum id fst (MQPaintEventFilter_eventFilter host 4 1 paintEvent stage) =
       map_sum id fst (MQPaintEventFilter_eventFilter host 4 1 paintEvent
         (stage\<lparr>calls := [Call_void 0x1000 7 42]\<rparr>))"
proof -
  have e1: "MQCallback_trigger host 1 trio =
      Inr (trio\<lparr>calls := [Call_void 0x1000 7 42], foreign := [Seen_void 7 42]\<rparr>)"
    by (simp add: MQCallback_trigger_def call_void_def object_at_def trio_def host_def
        recordVoid_def)
  have e2: "MQCallback_QString_trigger host 2 [104] trio =
      Inr (trio\<lparr>calls := [Call_QString 0x2000 8 43 [104]],
                foreign := [Seen_QString 8 43 [104]]\<rparr>)"
    by (simp add: MQCallback_QString_trigger_def call_QString_def object_at_def trio_def
        host_def recordString_def)
  have e3: "MQCallback_int_trigger host 3 99 trio =
      Inr (trio\<lparr>calls := [Call_int 0x3000 9 44 99], foreign := [Seen_int 9 44 99]\<rparr>)"
    by (simp add: MQCallback_int_trigger_def call_int_def object_at_def trio_def host_def
        recordCall_def)
  have e4: "MQPaintEventFilter_eventFilter host 3 1 paintEvent stage =
      Inr (True, stage\<lparr>calls := [Call_paint 0x4000 7 42 1 paintEvent],
                       foreign := [Seen_paint 7 42 1 paintEvent]\<rparr>)"
    by (simp add: eventFilter_paint_branch [where ?d0.0 = 7 and ?d1.0 = 42 and cb = "0x4000"]
        call_paint_def stage_def host_def claimPaint_def paintEvent_def QEvent_Paint_def
        object_at_def)
  have e5: "object_at stage 4 = object_at (stage\<lparr>calls := [Call_void 0x1000 7 42]\<rparr>) 4"
    "foreign stage = foreign (stage\<lparr>calls := [Call_void 0x1000 7 42]\<rparr>)"
    by (simp_all add: object_at_def)
  have c0: "calls trio = []" "calls stage = []"
    by (simp_all add: trio_def stage_def)
  note c1 = members_never_modified [where P = host and this = 1 and s = trio
      and ?s1.0 = "trio\<lparr>calls := [Call_void 0x1000 7 42], foreign := [Seen_void 7 42]\<rparr>",
      THEN conjunct1, rule_format, OF e1]
  note c2 = members_never_modified [where P = host and this = 2 and s = trio
      and str = "[104]"
      and ?s1.0 = "trio\<lparr>calls := [Call_QString 0x2000 8 43 [104]],
        foreign := [Seen_QString 8 43 [104]]\<rparr>",
      THEN conjunct2, THEN conjunct1, rule_format, OF e2]
  note c3 = members_never_modified [where P = host and this = 3 and s = trio and i = 99
      and ?s1.0 = "trio\<lparr>calls := [Call_int 0x3000 9 44 99], foreign := [Seen_int 9 44 99]\<rparr>",
      THEN conjunct2, THEN conjunct2, THEN conjunct1, rule_format, OF e3]
  note c4 = members_never_modified [where P = host and this = 3 and s = stage
      and receiver = 1 and event = paintEvent and b = True
      and ?s1.0 = "stage\<lparr>calls := [Call_paint 0x4000 7 42 1 paintEvent],
        foreign := [Seen_paint 7 42 1 paintEvent]\<rparr>",
      THEN conjunct2, THEN conjunct2, THEN conjunct2, THEN conjunct1, rule_format, OF e4]
  note c5 = members_never_modified [where P = host and this = 4 and s = stage
      and t = "stage\<lparr>calls := [Call_void 0x1000 7 42]\<rparr>"
      and receiver = 1 and event = paintEvent,
      THEN conjunct2, THEN conjunct2, THEN conjunct2, THEN conjunct2, rule_format,
      OF conjI [OF e5]]
  from c1 have g1: "heap (trio\<lparr>calls := [Call_void 0x1000 7 42], foreign := [Seen_void 7 42]\<rparr>)
        = heap trio
      \<and> (\<exists>c s2. calls (trio\<lparr>calls := [Call_void 0x1000 7 42], foreign := [Seen_void 7 42]\<rparr>)
            = calls trio @ [c]
          \<and> MQCallback_trigger host 1
              (trio\<lparr>calls := [Call_void 0x1000 7 42], foreign := [Seen_void 7 42]\<rparr>) = Inr s2
          \<and> heap s2 = heap trio \<and> calls s2 = [Call_void 0x1000 7 42, c])"
    by (auto simp: c0)
  from c2 have g2: "\<exists>c s2. MQCallback_QString_trigger host 2 [104]
              (trio\<lparr>calls := [Call_QString 0x2000 8 43 [104]],
                    foreign := [Seen_QString 8 43 [104]]\<rparr>) = Inr s2
          \<and> heap s2 = heap trio \<and> calls s2 = [Call_QString 0x2000 8 43 [104], c]"
    by (auto simp: c0)
  from c3 have g3: "\<exists>c s2. MQCallback_int_trigger host 3 99
              (trio\<lparr>calls := [Call_int 0x3000 9 44 99], foreign := [Seen_int 9 44 99]\<rparr>) = Inr s2
          \<and> heap s2 = heap trio \<and> calls s2 = [Call_int 0x3000 9 44 99, c]"
    by (auto simp: c0)
  from c4 have g4: "\<exists>cs b2 s2. MQPaintEventFilter_eventFilter host 3 1 paintEvent
              (stage\<lparr>calls := [Call_paint 0x4000 7 42 1 paintEvent],
                     foreign := [Seen_paint 7 42 1 paintEvent]\<rparr>) = Inr (b2, s2)
          \<and> heap s2 = heap stage \<and> calls s2 = Call_paint 0x4000 7 42 1 paintEvent # cs"
    by (auto simp: c0)
  show ?thesis
    using e1 e2 e3 e4 e5 g1 g2 g3 g4 c5 by blast
qed

section \<open>The filter is built in place, the trampolines are allocated\<close>

lemma operator_new_fresh:
  "operator_new obj s = (h, s') \<Longrightarrow>
   h = length (heap s) \<and> object_at s h = None \<and> length (heap s') = Suc (length (heap s))
   \<and> object_at s' h = Some obj \<and> (\<forall>k. k \<noteq> h \<longrightarrow> object_at s' k = object_at s k)"
  by (auto simp: operator_new_def object_at_def nth_append)

text \<open>
  C10. \<^verbatim>\<open>MQPaintEventFilter_constructor\<close> allocates nothing: given the caller's storage, it
  returns only the new state, in which the store has as many cells as before, the cell
  at the caller's own pointer holds the filter with exactly the three values supplied,
  and every other cell is as it was. Each trampoline creation instead returns a handle
  to a cell that did not exist before, the store growing by this one cell, which holds
  the trampoline with the three values.
\<close>

theorem filter_built_in_place:
  "(self < length (heap s) \<longrightarrow>
      (\<exists>t. MQPaintEventFilter_constructor self d0 d1 cb s = Inr t
         \<and> length (heap t) = length (heap s)
         \<and> object_at t self = Some (MQPaintEventFilter d0 d1 cb)
         \<and> (\<forall>k. k \<noteq> self \<longrightarrow> object_at t k = object_at s k)))
   \<and> (MQCallback_new d0 d1 cb s = (h, s') \<longrightarrow>
      h = length (heap s) \<and> object_at s h = None
      \<and> length (heap s') = Suc (length (heap s))
      \<and> object_at s' h = Some (MQCallback d0 d1 cb)
      \<and> (\<forall>k. k \<noteq> h \<longrightarrow> object_at s' k = object_at s k))
   \<and> (MQCallback_int_new d0 d1 cb s = (h, s') \<longrightarrow>
      h = length (heap s) \<and> object_at s h = None
      \<and> length (heap s') = Suc (length (heap s))
      \<and> object_at s' h = Some (MQCallback_int d0 d1 cb)
      \<and> (\<forall>k. k \<noteq> h \<longrightarrow> object_at s' k = object_at s k))
   \<and> (MQCallback_QString_new d0 d1 cb s = (h, s') \<longrightarrow>
      h = length (heap s) \<and> object_at s h = None
      \<and> length (heap s') = Suc (length (heap s))
      \<and> object_at s' h = Some (MQCallback_QString d0 d1 cb)
      \<and> (\<forall>k. k \<noteq> h \<longrightarrow> object_at s' k = object_at s k))"
proof -
  have placed: "\<exists>t. MQPaintEventFilter_constructor self d0 d1 cb s = Inr t
         \<and> length (heap t) = length (heap s)
         \<and> object_at t self = Some (MQPaintEventFilter d0 d1 cb)
         \<and> (\<forall>k. k \<noteq> self \<longrightarrow> object_at t k = object_at s k)"
    if "self < length (heap s)"
    using that by (simp add: MQPaintEventFilter_constructor_def object_at_placement)
  show ?thesis
    unfolding MQCallback_new_def MQCallback_int_new_def MQCallback_QString_new_def
    using placed operator_new_fresh [of _ s h s'] by blast
qed

theorem filter_built_in_place_witness:
  "5 < length (heap stage)
   \<and> MQPaintEventFilter_constructor 5 9 44 0x5000 stage =
       Inr (stage\<lparr>heap := (heap stage)[5 := Some (MQPaintEventFilter 9 44 0x5000)]\<rparr>)
   \<and> length (heap (stage\<lparr>heap := (heap stage)[5 := Some (MQPaintEventFilter 9 44 0x5000)]\<rparr>))
       = length (heap stage)
   \<and> object_at (stage\<lparr>heap := (heap stage)[5 := Some (MQPaintEventFilter 9 44 0x5000)]\<rparr>) 5
       = Some (MQPaintEventFilter 9 44 0x5000)
   \<and> MQCallback_new 7 42 0x1000 stage =
       (6, stage\<lparr>heap := heap stage @ [Some (MQCallback 7 42 0x1000)]\<rparr>)
   \<and> object_at stage 6 = None
   \<and> length (heap (stage\<lparr>heap := heap stage @ [Some (MQCallback 7 42 0x1000)]\<rparr>))
       = Suc (length (heap stage))
   \<and> MQCallback_int_new 7 42 0x3000 stage =
       (6, stage\<lparr>heap := heap stage @ [Some (MQCallback_int 7 42 0x3000)]\<rparr>)
   \<and> object_at (stage\<lparr>heap := heap stage @ [Some (MQCallback_int 7 42 0x3000)]\<rparr>) 6
       = Some (MQCallback_int 7 42 0x3000)
   \<and> MQCallback_QString_new 7 42 0x2000 stage =
       (6, stage\<lparr>heap := heap stage @ [Some (MQCallback_QString 7 42 0x2000)]\<rparr>)
   \<and> object_at (stage\<lparr>heap := heap stage @ [Some (MQCallback_QString 7 42 0x2000)]\<rparr>) 6
       = Some (MQCallback_QString 7 42 0x2000)"
proof -
  have l: "5 < length (heap stage)"
    by (simp add: stage_def)
  have n1: "MQCallback_new 7 42 0x1000 stage =
      (6, stage\<lparr>heap := heap stage @ [Some (MQCallback 7 42 0x1000)]\<rparr>)"
    by (simp add: MQCallback_new_def operator_new_def stage_def)
  have n2: "MQCallback_int_new 7 42 0x3000 stage =
      (6, stage\<lparr>heap := heap stage @ [Some (MQCallback_int 7 42 0x3000)]\<rparr>)"
    by (simp add: MQCallback_int_new_def operator_new_def stage_def)
  have n3: "MQCallback_QString_new 7 42 0x2000 stage =
      (6, stage\<lparr>heap := heap stage @ [Some (MQCallback_QString 7 42 0x2000)]\<rparr>)"
    by (simp add: MQCallback_QString_new_def operator_new_def stage_def)
  have n4: "\<And>t. MQPaintEventFilter_constructor 5 9 44 0x5000 stage = Inr t \<longleftrightarrow>
      t = stage\<lparr>heap := (heap stage)[5 := Some (MQPaintEventFilter 9 44 0x5000)]\<rparr>"
    using l by (auto simp: MQPaintEventFilter_constructor_def)
  note c1 = filter_built_in_place [where s = stage and ?d0.0 = 9 and ?d1.0 = 44
      and cb = "0x5000" and self = 5, THEN conjunct1]
  note c2 = filter_built_in_place [where s = stage and ?d0.0 = 7 and ?d1.0 = 42
      and cb = "0x1000" and h = 6
      and s' = "stage\<lparr>heap := heap stage @ [Some (MQCallback 7 42 0x1000)]\<rparr>",
      THEN conjunct2, THEN conjunct1]
  note c3 = filter_built_in_place [where s = stage and ?d0.0 = 7 and ?d1.0 = 42
      and cb = "0x3000" and h = 6
      and s' = "stage\<lparr>heap := heap stage @ [Some (MQCallback_int 7 42 0x3000)]\<rparr>",
      THEN conjunct2, THEN conjunct2, THEN conjunct1]
  note c4 = filter_built_in_place [where s = stage and ?d0.0 = 7 and ?d1.0 = 42
      and cb = "0x2000" and h = 6
      and s' = "stage\<lparr>heap := heap stage @ [Some (MQCallback_QString 7 42 0x2000)]\<rparr>",
      THEN conjunct2, THEN conjunct2, THEN conjunct2]
  from c1 l have f: "length (heap (stage\<lparr>heap := (heap stage)[5 :=
        Some (MQPaintEventFilter 9 44 0x5000)]\<rparr>)) = length (heap stage)
      \<and> object_at (stage\<lparr>heap := (heap stage)[5 := Some (MQPaintEventFilter 9 44 0x5000)]\<rparr>) 5
        = Some (MQPaintEventFilter 9 44 0x5000)"
    by (auto simp: n4)
  from c2 n1 have g1: "object_at stage 6 = None
      \<and> length (heap (stage\<lparr>heap := heap stage @ [Some (MQCallback 7 42 0x1000)]\<rparr>))
        = Suc (length (heap stage))"
    by simp
  from c3 n2 have g2:
    "object_at (stage\<lparr>heap := heap stage @ [Some (MQCallback_int 7 42 0x3000)]\<rparr>) 6
       = Some (MQCallback_int 7 42 0x3000)"
    by simp
  from c4 n3 have g3:
    "object_at (stage\<lparr>heap := heap stage @ [Some (MQCallback_QString 7 42 0x2000)]\<rparr>) 6
       = Some (MQCallback_QString 7 42 0x2000)"
    by simp
  show ?thesis
    using l n1 n2 n3 n4 f g1 g2 g3 by simp
qed

section \<open>Several trampolines, fired in any order\<close>

lemma create_frame:
  "create c s = (h, s1) \<Longrightarrow>
   h = length (heap s) \<and> heap s1 = heap s @ [Some (built c)] \<and> calls s1 = calls s
   \<and> foreign s1 = foreign s"
  by (cases c)
    (auto simp: MQCallback_new_def MQCallback_int_new_def MQCallback_QString_new_def
      operator_new_def)

lemma create_all_heap:
  "create_all cs s = (hs, s1) \<Longrightarrow>
   hs = [length (heap s) ..< length (heap s) + length cs]
   \<and> heap s1 = heap s @ map (\<lambda>c. Some (built c)) cs \<and> calls s1 = calls s
   \<and> foreign s1 = foreign s"
proof (induction cs arbitrary: s hs s1)
  case Nil
  then show ?case by simp
next
  case (Cons c cs)
  obtain h t where c: "create c s = (h, t)"
    by (cases "create c s")
  obtain hs' t' where r: "create_all cs t = (hs', t')"
    by (cases "create_all cs t")
  from Cons.prems c r have e: "hs = h # hs'" "s1 = t'"
    by simp_all
  from create_frame [OF c] have f: "h = length (heap s)" "heap t = heap s @ [Some (built c)]"
    "calls t = calls s" "foreign t = foreign s"
    by simp_all
  from Cons.IH [OF r] have i: "hs' = [length (heap t) ..< length (heap t) + length cs]"
    "heap t' = heap t @ map (\<lambda>c. Some (built c)) cs" "calls t' = calls t"
    "foreign t' = foreign t"
    by simp_all
  have len: "length (heap t) = Suc (length (heap s))"
    by (simp add: f(2))
  have u: "[length (heap s) ..< length (heap s) + length (c # cs)] =
      length (heap s) # [Suc (length (heap s)) ..< length (heap s) + length (c # cs)]"
    by (rule upt_conv_Cons) simp
  have "hs = h # hs'"
    by fact
  also have "\<dots> = length (heap s) # [length (heap t) ..< length (heap t) + length cs]"
    by (simp only: f(1) i(1))
  also have "\<dots> =
      length (heap s) # [Suc (length (heap s)) ..< length (heap s) + length (c # cs)]"
    by (simp add: len)
  also have "\<dots> = [length (heap s) ..< length (heap s) + length (c # cs)]"
    by (rule u [symmetric])
  finally have "hs = [length (heap s) ..< length (heap s) + length (c # cs)]" .
  then show ?case
    by (simp add: e(2) f i(2,3,4))
qed

lemma created_object:
  assumes "create_all cs s = (hs, s1)" and "k < length cs"
  shows "object_at s1 (hs ! k) = Some (built (cs ! k))"
proof -
  from create_all_heap [OF assms(1)] have
    hs: "hs = [length (heap s) ..< length (heap s) + length cs]"
    and hp: "heap s1 = heap s @ map (\<lambda>c. Some (built c)) cs"
    by simp_all
  from assms(2) have "hs ! k = length (heap s) + k"
    by (simp add: hs)
  with assms(2) show ?thesis
    by (simp add: object_at_def hp nth_append)
qed

lemma fire_created:
  "object_at s h = Some (built c) \<Longrightarrow> entry_ok P c a \<Longrightarrow>
   \<exists>s'. fire P (h, a) s = Inr s' \<and> heap s' = heap s \<and> calls s' = calls s @ [delivery c a]
     \<and> foreign s' = run_entry P c a (foreign s)"
  by (cases c; cases a)
    (auto simp: MQCallback_trigger_def MQCallback_QString_trigger_def
      MQCallback_int_trigger_def call_void_def call_QString_def call_int_def
      split: option.splits foreign_fn.splits)

lemma object_at_same_heap: "heap t = heap s \<Longrightarrow> object_at t h = object_at s h"
  by (simp add: object_at_def)

lemma fire_all_created:
  assumes "\<forall>k<length cs. object_at s (hs ! k) = Some (built (cs ! k))"
    and "\<forall>(k, a) \<in> set order. k < length cs \<and> entry_ok P (cs ! k) a"
  shows "\<exists>s'. fire_all P (map (\<lambda>(k, a). (hs ! k, a)) order) s = Inr s' \<and> heap s' = heap s
    \<and> calls s' = calls s @ map (\<lambda>(k, a). delivery (cs ! k) a) order
    \<and> foreign s' = fold (\<lambda>(k, a). run_entry P (cs ! k) a) order (foreign s)"
  using assms
proof (induction order arbitrary: s)
  case Nil
  then show ?case by simp
next
  case (Cons x order)
  obtain k a where x: "x = (k, a)"
    by (cases x)
  from Cons.prems x have k: "k < length cs" and ok: "entry_ok P (cs ! k) a"
    by simp_all
  from Cons.prems(1) k have "object_at s (hs ! k) = Some (built (cs ! k))"
    by simp
  from fire_created [OF this ok] obtain t where
    t: "fire P (hs ! k, a) s = Inr t" "heap t = heap s"
      "calls t = calls s @ [delivery (cs ! k) a]"
      "foreign t = run_entry P (cs ! k) a (foreign s)"
    by blast
  from Cons.prems(1) have "\<forall>k<length cs. object_at t (hs ! k) = Some (built (cs ! k))"
    by (simp add: object_at_same_heap [OF t(2)])
  moreover from Cons.prems(2) have
    "\<forall>(k, a) \<in> set order. k < length cs \<and> entry_ok P (cs ! k) a"
    by simp
  ultimately obtain s' where
    s': "fire_all P (map (\<lambda>(k, a). (hs ! k, a)) order) t = Inr s'" "heap s' = heap t"
      "calls s' = calls t @ map (\<lambda>(k, a). delivery (cs ! k) a) order"
      "foreign s' = fold (\<lambda>(k, a). run_entry P (cs ! k) a) order (foreign t)"
    using Cons.IH by blast
  show ?case
    by (simp add: x t s')
qed

lemma call_words_delivery: "call_words (delivery c a) = words c"
  by (cases c) simp_all

lemma length_filter_count:
  "length (filter (\<lambda>c. f c = w) xs) = count (mset (map f xs)) w"
  by (induction xs) auto

lemma one_call_each:
  assumes "mset (map fst order) = mset [0..<length cs]" and "distinct (map words cs)"
    and "k < length cs"
  shows "length (filter (\<lambda>c. call_words c = words (cs ! k))
           (map (\<lambda>(k, a). delivery (cs ! k) a) order)) = 1"
proof -
  have "map call_words (map (\<lambda>(k, a). delivery (cs ! k) a) order) =
      map (\<lambda>k. words (cs ! k)) (map fst order)"
    by (simp add: call_words_delivery split_beta)
  then have "mset (map call_words (map (\<lambda>(k, a). delivery (cs ! k) a) order)) =
      mset (map (\<lambda>k. words (cs ! k)) (map fst order))"
    by (rule arg_cong)
  also have "\<dots> = image_mset (\<lambda>k. words (cs ! k)) (mset (map fst order))"
    by (simp only: mset_map)
  also have "\<dots> = image_mset (\<lambda>k. words (cs ! k)) (mset [0..<length cs])"
    by (simp only: assms(1))
  also have "\<dots> = mset (map (\<lambda>k. words (cs ! k)) [0..<length cs])"
    by (simp only: mset_map)
  also have "map (\<lambda>k. words (cs ! k)) [0..<length cs] = map words cs"
    by (rule nth_equalityI) simp_all
  finally have m: "mset (map call_words (map (\<lambda>(k, a). delivery (cs ! k) a) order)) =
      mset (map words cs)" .
  have "length (filter (\<lambda>c. call_words c = words (cs ! k))
      (map (\<lambda>(k, a). delivery (cs ! k) a) order)) =
      count (mset (map call_words (map (\<lambda>(k, a). delivery (cs ! k) a) order))) (words (cs ! k))"
    by (rule length_filter_count)
  also have "\<dots> = count (mset (map words cs)) (words (cs ! k))"
    by (simp only: m)
  also have "\<dots> = (1::nat)"
  proof -
    have mem: "words (cs ! k) \<in> set (map words cs)"
      unfolding set_map using assms(3) by (intro imageI nth_mem)
    have "count (mset (map words cs)) (words (cs ! k)) =
        (if words (cs ! k) \<in> set (map words cs) then (1::nat) else 0)"
      using assms(2) distinct_count_atmost_1 [of "map words cs"] by blast
    with mem show ?thesis
      by (simp only: if_True)
  qed
  finally show ?thesis .
qed

text \<open>
  C5. Take any list of creation requests whose pairs (\<open>data0\<close>, \<open>data1\<close>) are distinct,
  create the trampolines, and fire each of them exactly once, in any order (\<open>order\<close>
  lists each index once, with the value fired), every entry point being a foreign
  function of its variant's shape. Then all firings return, and the calls made are
  exactly, in the order fired, the call of each trampoline's own entry point with its own
  pair: as many calls as trampolines, and for each trampoline exactly one call carrying
  its pair. The entry points really run: the foreign state at the end is the one at the
  start after each trampoline's own entry point, in the order fired, has acted on it with
  the trampoline's own pair and the value fired. The call a trampoline makes is a
  function of its own request and of the value fired, not of the other requests nor of
  its place in the order.
\<close>

theorem each_fired_once:
  assumes "create_all cs s0 = (hs, s1)"
    and "distinct (map words cs)"
    and "mset (map fst order) = mset [0..<length cs]"
    and "\<forall>(k, a) \<in> set order. entry_ok P (cs ! k) a"
  shows "\<exists>s2. fire_all P (map (\<lambda>(k, a). (hs ! k, a)) order) s1 = Inr s2
           \<and> calls s2 = calls s0 @ map (\<lambda>(k, a). delivery (cs ! k) a) order
           \<and> foreign s2 = fold (\<lambda>(k, a). run_entry P (cs ! k) a) order (foreign s0)
           \<and> length (calls s2) = length (calls s0) + length cs
           \<and> (\<forall>k<length cs.
                 length (filter (\<lambda>c. call_words c = words (cs ! k))
                   (drop (length (calls s0)) (calls s2))) = 1)"
proof -
  from assms(3) have "set (map fst order) = set [0..<length cs]"
    by (rule mset_eq_setD)
  then have "fst ` set order = {0..<length cs}"
    by simp
  then have "\<forall>x \<in> set order. fst x \<in> {0..<length cs}"
    by blast
  then have "\<forall>x \<in> set order. fst x < length cs"
    by simp
  with assms(4) have ok: "\<forall>(k, a) \<in> set order. k < length cs \<and> entry_ok P (cs ! k) a"
    by auto
  from assms(3) have "length (map fst order) = length [0..<length cs]"
    by (rule mset_eq_length)
  then have n: "length order = length cs"
    by simp
  from created_object [OF assms(1)] have
    "\<forall>k<length cs. object_at s1 (hs ! k) = Some (built (cs ! k))"
    by simp
  from fire_all_created [OF this ok] obtain s2 where
    s2: "fire_all P (map (\<lambda>(k, a). (hs ! k, a)) order) s1 = Inr s2"
      "calls s2 = calls s1 @ map (\<lambda>(k, a). delivery (cs ! k) a) order"
      "foreign s2 = fold (\<lambda>(k, a). run_entry P (cs ! k) a) order (foreign s1)"
    by blast
  from create_all_heap [OF assms(1)] have c: "calls s1 = calls s0" "foreign s1 = foreign s0"
    by simp_all
  have "\<forall>k<length cs.
      length (filter (\<lambda>c. call_words c = words (cs ! k))
        (drop (length (calls s0)) (calls s2))) = 1"
    using one_call_each [OF assms(3) assms(2)] by (simp add: s2(2) c)
  with s2 c n show ?thesis
    by simp
qed

theorem each_fired_once_witness:
  "create_all three start =
       ([1, 2, 3], start\<lparr>heap := [None, Some (MQCallback 1 2 0x1000),
                                     Some (MQCallback_QString 3 4 0x2000),
                                     Some (MQCallback_int 5 6 0x3000)]\<rparr>)
   \<and> distinct (map words three)
   \<and> mset (map fst shuffled) = mset [0..<length three]
   \<and> entry_ok host (three ! 2) (IntArg 99) \<and> entry_ok host (three ! 0) NoArg
   \<and> entry_ok host (three ! 1) (StringArg [104])
   \<and> (\<exists>s2. fire_all host [(3, IntArg 99), (1, NoArg), (2, StringArg [104])]
           (start\<lparr>heap := [None, Some (MQCallback 1 2 0x1000),
                              Some (MQCallback_QString 3 4 0x2000),
                              Some (MQCallback_int 5 6 0x3000)]\<rparr>) = Inr s2
         \<and> calls s2 = [Call_int 0x3000 5 6 99, Call_void 0x1000 1 2,
                        Call_QString 0x2000 3 4 [104]]
         \<and> foreign s2 = [Seen_int 5 6 99, Seen_void 1 2, Seen_QString 3 4 [104]]
         \<and> length (calls s2) = 3)"
proof -
  have c: "create_all three start =
      ([1, 2, 3], start\<lparr>heap := [None, Some (MQCallback 1 2 0x1000),
                                    Some (MQCallback_QString 3 4 0x2000),
                                    Some (MQCallback_int 5 6 0x3000)]\<rparr>)"
    by (simp add: three_def start_def MQCallback_new_def MQCallback_int_new_def
        MQCallback_QString_new_def operator_new_def)
  have d: "distinct (map words three)"
    by (simp add: three_def)
  have l: "length three = 3" "[0..<3] = [0, 1, 2]"
    by (simp_all add: three_def upt_rec)
  have m: "mset (map fst shuffled) = mset [0..<length three]"
    by (simp add: shuffled_def l)
  have e: "entry_ok host (three ! 2) (IntArg 99)" "entry_ok host (three ! 0) NoArg"
    "entry_ok host (three ! 1) (StringArg [104])"
    by (simp_all add: three_def host_def)
  from e have a: "\<forall>(k, a) \<in> set shuffled. entry_ok host (three ! k) a"
    by (simp add: shuffled_def)
  have f: "map (\<lambda>(k, a). ([1, 2, 3] ! k, a)) shuffled =
      [(3, IntArg 99), (1, NoArg), (2, StringArg [104])]"
    by (simp add: shuffled_def)
  have g: "map (\<lambda>(k, a). delivery (three ! k) a) shuffled =
      [Call_int 0x3000 5 6 99, Call_void 0x1000 1 2, Call_QString 0x2000 3 4 [104]]"
    by (simp add: shuffled_def three_def)
  have r: "fold (\<lambda>(k, a). run_entry host (three ! k) a) shuffled (foreign start) =
      [Seen_int 5 6 99, Seen_void 1 2, Seen_QString 3 4 [104]]"
    by (simp add: shuffled_def three_def start_def host_def recordCall_def recordVoid_def
        recordString_def)
  have s: "calls start = []"
    by (simp add: start_def)
  from each_fired_once [OF c d m a] show ?thesis
    unfolding f g r s using c d m e by (auto simp: l)
qed

end
